theory Spec2Isabelle
  imports Main
begin

section \<open>Data model of use-slot-fill.tsx\<close>

text \<open>
  The library classifies the children of a React component into named slots.
  A React node is modelled by the cases the classifier can tell apart: the
  values that are no elements (\<open>undefined\<close>, \<open>null\<close>, text, arrays) and elements,
  which carry their \<open>type\<close> and the \<open>children\<close> entry of their \<open>props\<close>.

  The \<open>type\<close> of an element is a host tag (a string such as \<open>div\<close>), a function
  component, or something else (a fragment symbol, a memo object).  A function
  component is a JavaScript function object: it has an identity (two calls of
  \<open>createFill\<close> give two different objects), a body, and possibly the own
  property \<open>__SLOT_FILL__\<close>, written \<open>SLOT_FILL\<close> here.  The only body the library
  itself writes is the one of a fill, \<open>({ children }) => <>{children}</>\<close>; every
  other body is opaque.
\<close>

datatype fn_body = FillBody | OtherBody nat

record function_component =
  fn_id :: nat
  fn_body :: fn_body
  SLOT_FILL :: "string option"

datatype element_type =
    HostType string
  | FragmentType
  | FunctionType function_component
  | ExoticType nat

datatype react_node =
    Undefined
  | Null
  | Text string
  | Array "react_node list"
  | Element (node_type: element_type) (props_children: react_node)

text \<open>
  The result of the classifier is a plain object \<open>{}\<close> with string keys.  Its own
  properties are kept as an association list in insertion order.
\<close>

type_synonym slot_map = "(string \<times> react_node) list"

text \<open>
  The property names every object literal inherits from \<open>Object.prototype\<close>.
  The operator \<open>in\<close> answers true for them on \<open>{}\<close>, as it does for own properties.
\<close>

definition object_prototype_keys :: "string list" where
  "object_prototype_keys =
     [''constructor'', ''hasOwnProperty'', ''isPrototypeOf'', ''propertyIsEnumerable'',
      ''toLocaleString'', ''toString'', ''valueOf'', ''__proto__'',
      ''__defineGetter__'', ''__defineSetter__'', ''__lookupGetter__'', ''__lookupSetter__'']"

text \<open>\<open>k in obj\<close> for an object literal \<open>obj\<close>.\<close>

definition has_property :: "string \<Rightarrow> slot_map \<Rightarrow> bool" where
  "has_property k obj \<longleftrightarrow> k \<in> set (map fst obj) \<or> k \<in> set object_prototype_keys"

text \<open>\<open>obj[k] = v\<close>: an existing own property is overwritten in place, a new one is added last.\<close>

fun set_property :: "string \<Rightarrow> react_node \<Rightarrow> slot_map \<Rightarrow> slot_map" where
  "set_property k v [] = [(k, v)]"
| "set_property k v ((k', v') # ps) =
     (if k' = k then (k, v) # ps else (k', v') # set_property k v ps)"

text \<open>The own property \<open>k\<close> of \<open>obj\<close>, \<open>None\<close> when \<open>obj\<close> has no such own property.\<close>

definition own_property :: "slot_map \<Rightarrow> string \<Rightarrow> react_node option" where
  "own_property obj k = map_of obj k"

section \<open>createFill\<close>

text \<open>
  \<open>createFill(slotName)\<close> builds a new function object with the fill body and
  sets its property \<open>__SLOT_FILL__\<close> to \<open>slotName\<close>.  The identity of the new
  object is chosen by the runtime; it is the second argument here.
\<close>

definition createFill :: "string \<Rightarrow> nat \<Rightarrow> function_component" where
  "createFill slotName fid =
     (let fill = \<lparr>fn_id = fid, fn_body = FillBody, SLOT_FILL = None\<rparr>
      in fill\<lparr>SLOT_FILL := Some slotName\<rparr>)"

text \<open>
  Calling a function component with the \<open>children\<close> of its props.  The fill body
  returns the fragment \<open><>{children}</>\<close>; what another body returns is not known.
\<close>

fun call_component :: "function_component \<Rightarrow> react_node \<Rightarrow> react_node option" where
  "call_component f children =
     (case fn_body f of
        FillBody \<Rightarrow> Some (Element FragmentType children)
      | OtherBody _ \<Rightarrow> None)"

text \<open>The element \<open><F>children</F>\<close> for \<open>F = createFill(slotName)\<close>.\<close>

abbreviation Fill :: "string \<Rightarrow> nat \<Rightarrow> react_node \<Rightarrow> react_node" where
  "Fill slotName fid children \<equiv> Element (FunctionType (createFill slotName fid)) children"

section \<open>useSlots\<close>

text \<open>
  \<open>children\<close> is given as the sequence of nodes that \<open>Children.forEach\<close> of the
  host framework visits, in order; \<open>Children.count\<close> is the length of that
  sequence.  \<open>useMemo\<close> returns what its callback computes, so the hook is the
  callback applied to \<open>children\<close>.
\<close>

definition Children_count :: "react_node list \<Rightarrow> nat" where
  "Children_count children = length children"

text \<open>
  The three tests of the callback (\<open>isValidElement(child)\<close>, the type is a function,
  \<open>'__SLOT_FILL__' in child.type\<close>) pass together exactly on an element whose type
  is a function component with the property; the function gives the value of
  \<open>child.type.__SLOT_FILL__\<close> then, and \<open>None\<close> when one of the tests fails.
\<close>

fun SLOT_FILL_of :: "react_node \<Rightarrow> string option" where
  "SLOT_FILL_of (Element (FunctionType f) ch) = SLOT_FILL f"
| "SLOT_FILL_of _ = None"

text \<open>The callback of \<open>Children.forEach\<close>, on the two locals \<open>rest\<close> and \<open>slots\<close>.\<close>

fun forEach_callback ::
  "react_node \<Rightarrow> react_node list \<times> slot_map \<Rightarrow> react_node list \<times> slot_map" where
  "forEach_callback child (rest, slots) =
     (case SLOT_FILL_of child of
        None \<Rightarrow> (rest @ [child], slots)
      | Some slotName \<Rightarrow>
          if has_property slotName slots then (rest, slots)
          else (rest, set_property slotName (props_children child) slots))"

definition Children_forEach ::
  "react_node list \<Rightarrow> react_node list \<times> slot_map \<Rightarrow> react_node list \<times> slot_map" where
  "Children_forEach children st = fold forEach_callback children st"

definition useSlots :: "react_node list \<Rightarrow> slot_map" where
  "useSlots children =
     (if Children_count children = 0 then []
      else (case Children_forEach children ([], []) of
              (rest, slots) \<Rightarrow> set_property ''rest'' (Array rest) slots))"

section \<open>SlotManager\<close>

record SlotManager =
  slots :: "string set"

definition SlotManager_new :: "string list \<Rightarrow> SlotManager" where
  "SlotManager_new names = \<lparr>slots = set names\<rparr>"

datatype error = Error string

definition SlotManager_createFill ::
  "SlotManager \<Rightarrow> string \<Rightarrow> nat \<Rightarrow> error + function_component" where
  "SlotManager_createFill this slotName fid =
     (if slotName \<notin> slots this
      then Inl (Error (''Slot '' @ [CHR 0x22] @ slotName @ [CHR 0x22] @ '' does not exist''))
      else Inr (createFill slotName fid))"

definition SlotManager_useSlots :: "SlotManager \<Rightarrow> react_node list \<Rightarrow> slot_map" where
  "SlotManager_useSlots this children = useSlots children"

section \<open>The object operations and the loop\<close>

lemma map_of_set_property:
  "map_of (set_property k v ps) = (map_of ps)(k \<mapsto> v)"
  by (induction ps) (auto simp: fun_eq_iff)

lemma has_property_iff:
  "has_property k ps \<longleftrightarrow> map_of ps k \<noteq> None \<or> k \<in> set object_prototype_keys"
  by (simp add: has_property_def map_of_eq_None_iff)

lemma has_property_set_property:
  "has_property k' (set_property k v ps) \<longleftrightarrow> k' = k \<or> has_property k' ps"
  by (simp add: has_property_iff map_of_set_property)

lemma fold_callback_rest:
  "fst (fold forEach_callback xs (rest, sl)) = rest @ filter (\<lambda>c. SLOT_FILL_of c = None) xs"
  by (induction xs arbitrary: rest sl) (auto split: option.splits)

lemma fold_callback_present:
  "has_property S sl \<Longrightarrow> map_of (snd (fold forEach_callback xs (rest, sl))) S = map_of sl S"
proof (induction xs arbitrary: rest sl)
  case Nil
  then show ?case by simp
next
  case (Cons x xs)
  show ?case
  proof (cases "SLOT_FILL_of x")
    case None
    then show ?thesis using Cons by simp
  next
    case (Some T)
    show ?thesis
    proof (cases "has_property T sl")
      case True
      then show ?thesis using Some Cons by simp
    next
      case False
      then have "T \<noteq> S" using Cons.prems by auto
      moreover have "has_property S (set_property T (props_children x) sl)"
        using Cons.prems by (simp add: has_property_set_property)
      ultimately show ?thesis
        using Some False Cons.IH by (simp add: map_of_set_property)
    qed
  qed
qed

lemma fold_callback_absent:
  "\<forall>c\<in>set xs. SLOT_FILL_of c \<noteq> Some S \<Longrightarrow>
   map_of (snd (fold forEach_callback xs (rest, sl))) S = map_of sl S"
proof (induction xs arbitrary: rest sl)
  case Nil
  then show ?case by simp
next
  case (Cons x xs)
  then show ?case
    by (cases "SLOT_FILL_of x") (auto simp: map_of_set_property)
qed

lemma fold_callback_absent_has:
  "\<forall>c\<in>set xs. SLOT_FILL_of c \<noteq> Some S \<Longrightarrow>
   has_property S (snd (fold forEach_callback xs (rest, sl))) = has_property S sl"
proof (induction xs arbitrary: rest sl)
  case Nil
  then show ?case by simp
next
  case (Cons x xs)
  then show ?case
    by (cases "SLOT_FILL_of x") (auto simp: has_property_set_property)
qed

lemma fold_callback_first:
  assumes "\<forall>c\<in>set pre. SLOT_FILL_of c \<noteq> Some S"
    and "SLOT_FILL_of x = Some S"
    and "\<not> has_property S sl"
  shows "map_of (snd (fold forEach_callback (pre @ x # post) (rest, sl))) S
         = Some (props_children x)"
proof -
  obtain r1 s1 where st: "fold forEach_callback pre (rest, sl) = (r1, s1)"
    by (cases "fold forEach_callback pre (rest, sl)")
  have "has_property S s1 = has_property S sl"
    using fold_callback_absent_has [OF assms(1), of rest sl] st by simp
  then have nh: "\<not> has_property S s1" using assms(3) by simp
  have step: "forEach_callback x (r1, s1) = (r1, set_property S (props_children x) s1)"
    using assms(2) nh by simp
  have "has_property S (set_property S (props_children x) s1)"
    by (simp add: has_property_set_property)
  then have "map_of (snd (fold forEach_callback post (r1, set_property S (props_children x) s1))) S
        = map_of (set_property S (props_children x) s1) S"
    by (rule fold_callback_present)
  then show ?thesis
    using st step by (simp add: map_of_set_property)
qed


lemma fold_callback_has_mono:
  "has_property S sl \<Longrightarrow> has_property S (snd (fold forEach_callback xs (rest, sl)))"
proof (induction xs arbitrary: rest sl)
  case Nil
  then show ?case by simp
next
  case (Cons x xs)
  then show ?case
    by (cases "SLOT_FILL_of x") (auto simp: has_property_set_property)
qed

lemma callback_marks_slot:
  "SLOT_FILL_of x = Some S \<Longrightarrow> has_property S (snd (forEach_callback x (rest, sl)))"
  by (simp add: has_property_set_property)

lemma callback_ignores_repeat:
  "SLOT_FILL_of x = Some S \<Longrightarrow> has_property S (snd st) \<Longrightarrow> forEach_callback x st = st"
  by (cases st) simp

lemma fold_callback_later_discarded:
  assumes "SLOT_FILL_of first = Some S" and "SLOT_FILL_of later = Some S"
  shows "fold forEach_callback (pre @ first # mid @ later # post) st
         = fold forEach_callback (pre @ first # mid @ post) st"
proof -
  obtain r1 s1 where st1: "fold forEach_callback pre st = (r1, s1)"
    by (cases "fold forEach_callback pre st")
  obtain r2 s2 where st2: "forEach_callback first (r1, s1) = (r2, s2)"
    by (cases "forEach_callback first (r1, s1)")
  have "has_property S s2"
    using callback_marks_slot [OF assms(1), of r1 s1] st2 by simp
  then have "has_property S (snd (fold forEach_callback mid (r2, s2)))"
    by (rule fold_callback_has_mono)
  then have "forEach_callback later (fold forEach_callback mid (r2, s2))
             = fold forEach_callback mid (r2, s2)"
    by (rule callback_ignores_repeat [OF assms(2)])
  then show ?thesis
    using st1 st2 by simp
qed

lemma useSlots_nonempty:
  "children \<noteq> [] \<Longrightarrow>
   useSlots children =
     set_property ''rest'' (Array (fst (fold forEach_callback children ([], []))))
       (snd (fold forEach_callback children ([], [])))"
  by (simp add: useSlots_def Children_count_def Children_forEach_def split: prod.split)

lemma own_property_useSlots_rest:
  "children \<noteq> [] \<Longrightarrow>
   own_property (useSlots children) ''rest''
     = Some (Array (filter (\<lambda>c. SLOT_FILL_of c = None) children))"
  by (simp add: useSlots_nonempty own_property_def map_of_set_property fold_callback_rest)

lemma own_property_useSlots_slot:
  "children \<noteq> [] \<Longrightarrow> S \<noteq> ''rest'' \<Longrightarrow>
   own_property (useSlots children) S
     = map_of (snd (fold forEach_callback children ([], []))) S"
  by (simp add: useSlots_nonempty own_property_def map_of_set_property)

lemma rest_not_inherited: "''rest'' \<notin> set object_prototype_keys"
  by (simp add: object_prototype_keys_def)

lemma own_property_useSlots_first:
  assumes "S \<noteq> ''rest''" and "S \<notin> set object_prototype_keys"
    and "\<forall>c\<in>set pre. SLOT_FILL_of c \<noteq> Some S"
    and "SLOT_FILL_of x = Some S"
  shows "own_property (useSlots (pre @ x # post)) S = Some (props_children x)"
proof -
  have "\<not> has_property S []"
    using assms(2) by (simp add: has_property_def)
  then have "map_of (snd (fold forEach_callback (pre @ x # post) ([], []))) S
             = Some (props_children x)"
    by (rule fold_callback_first [OF assms(3) assms(4)])
  then show ?thesis
    using assms(1) by (simp add: own_property_useSlots_slot)
qed

lemma useSlots_later_discarded:
  assumes "SLOT_FILL_of first = Some S" and "SLOT_FILL_of later = Some S"
  shows "useSlots (pre @ first # mid @ later # post) = useSlots (pre @ first # mid @ post)"
  using fold_callback_later_discarded [OF assms, of pre mid post "([], [])"]
  by (simp add: useSlots_nonempty)

lemma useSlots_untagged_only:
  assumes "children \<noteq> []" and "\<forall>c\<in>set children. SLOT_FILL_of c = None"
  shows "useSlots children = [(''rest'', Array children)]"
proof -
  have "fold forEach_callback children (rest, sl) = (rest @ children, sl)" for rest sl
    using assms(2) by (induction children arbitrary: rest) simp_all
  then show ?thesis
    using assms(1) by (simp add: useSlots_nonempty)
qed

section \<open>Properties\<close>

text \<open>
  C1.  For every non-empty input sequence the result of \<open>useSlots\<close> has the key
  \<open>rest\<close>.  For the empty sequence the guard on \<open>Children.count\<close> returns the
  object without any own property, so the result has no key \<open>rest\<close>.
\<close>

theorem useSlots_rest_key_present:
  "(children \<noteq> [] \<longrightarrow>
      ''rest'' \<in> set (map fst (useSlots children))
      \<and> own_property (useSlots children) ''rest'' \<noteq> None)
   \<and> useSlots [] = []"
proof (intro conjI impI)
  assume ne: "children \<noteq> []"
  then show "own_property (useSlots children) ''rest'' \<noteq> None"
    by (simp add: own_property_useSlots_rest)
  then show "''rest'' \<in> set (map fst (useSlots children))"
    by (simp add: own_property_def map_of_eq_None_iff)
next
  show "useSlots [] = []"
    by (simp add: useSlots_def Children_count_def)
qed

text \<open>
  At a concrete input: a single header fill.  Nothing is untagged, and \<open>rest\<close> is
  present with the empty bucket.
\<close>

theorem useSlots_rest_key_present_witness:
  "[Fill ''header'' 0 (Text ''H'')] \<noteq> []
   \<and> ''rest'' \<in> set (map fst (useSlots [Fill ''header'' 0 (Text ''H'')]))
   \<and> own_property (useSlots [Fill ''header'' 0 (Text ''H'')]) ''rest'' \<noteq> None"
proof -
  have h: "[Fill ''header'' 0 (Text ''H'')] \<noteq> []" by simp
  show ?thesis
    using h useSlots_rest_key_present [of "[Fill ''header'' 0 (Text ''H'')]"]
    by blast
qed

text \<open>
  For every input, the empty one included, the statement fails: the result for
  the empty sequence is not the object whose only entry is \<open>rest\<close> with the
  empty sequence, it has no entry.
\<close>

theorem useSlots_empty_has_no_rest:
  "useSlots [] = [] \<and> own_property (useSlots []) ''rest'' = None
   \<and> useSlots [] \<noteq> [(''rest'', Array [])]"
  by (simp add: useSlots_def Children_count_def own_property_def)
text \<open>
  C2.  First match wins.  For a slot name \<open>S\<close> other than \<open>rest\<close> and other
  than the names every object inherits: when \<open>first\<close> is the first fill for \<open>S\<close>
  in the sequence and \<open>later\<close> is another fill for \<open>S\<close> after it, the entry for
  \<open>S\<close> is the nested content of \<open>first\<close>, and \<open>later\<close> is discarded: the result
  is the one of the sequence without it.
\<close>

theorem useSlots_first_match_wins:
  assumes "S \<noteq> ''rest''" and "S \<notin> set object_prototype_keys"
    and "\<forall>c\<in>set pre. SLOT_FILL_of c \<noteq> Some S"
    and "SLOT_FILL_of first = Some S" and "SLOT_FILL_of later = Some S"
  shows "own_property (useSlots (pre @ first # mid @ later # post)) S
           = Some (props_children first)
         \<and> useSlots (pre @ first # mid @ later # post) = useSlots (pre @ first # mid @ post)"
  using own_property_useSlots_first [OF assms(1-4), of "mid @ later # post"]
    useSlots_later_discarded [OF assms(4,5), of pre mid post]
  by simp

text \<open>
  The rule at a concrete input: text, a header fill, a footer fill, a second header
  fill, text.
\<close>

theorem useSlots_first_match_wins_witness:
  "own_property (useSlots [Text ''x'', Fill ''header'' 0 (Text ''A''), Fill ''footer'' 1 (Text ''F''),
       Fill ''header'' 2 (Text ''B''), Text ''y'']) ''header'' = Some (Text ''A'')
   \<and> useSlots [Text ''x'', Fill ''header'' 0 (Text ''A''), Fill ''footer'' 1 (Text ''F''),
       Fill ''header'' 2 (Text ''B''), Text ''y'']
     = useSlots [Text ''x'', Fill ''header'' 0 (Text ''A''), Fill ''footer'' 1 (Text ''F''),
       Text ''y'']"
proof -
  have h1: "''header'' \<noteq> ''rest''" by simp
  have h2: "''header'' \<notin> set object_prototype_keys"
    by (simp add: object_prototype_keys_def)
  have h3: "\<forall>c\<in>set [Text ''x'']. SLOT_FILL_of c \<noteq> Some ''header''" by simp
  have h4: "SLOT_FILL_of (Fill ''header'' 0 (Text ''A'')) = Some ''header''"
    by (simp add: createFill_def)
  have h5: "SLOT_FILL_of (Fill ''header'' 2 (Text ''B'')) = Some ''header''"
    by (simp add: createFill_def)
  show ?thesis
    using useSlots_first_match_wins [OF h1 h2 h3 h4 h5,
        of "[Fill ''footer'' 1 (Text ''F'')]" "[Text ''y'']"]
    unfolding react_node.sel append.simps .
qed

text \<open>
  Without the restriction on \<open>S\<close> the rule fails.  Two fills for the slot named
  \<open>rest\<close>: the entry for \<open>rest\<close> is the empty bucket of untagged units, not the
  content of the first fill.  Two fills for the slot named \<open>constructor\<close>:
  \<open>'constructor' in slots\<close> holds from the start, so no entry is ever stored.
\<close>

theorem useSlots_first_match_counterexample:
  "SLOT_FILL_of (Fill ''rest'' 0 (Text ''A'')) = Some ''rest''
   \<and> SLOT_FILL_of (Fill ''rest'' 1 (Text ''B'')) = Some ''rest''
   \<and> own_property (useSlots [Fill ''rest'' 0 (Text ''A''), Fill ''rest'' 1 (Text ''B'')]) ''rest''
       = Some (Array [])
   \<and> own_property (useSlots [Fill ''constructor'' 0 (Text ''A''),
         Fill ''constructor'' 1 (Text ''B'')]) ''constructor'' = None"
  by (simp add: useSlots_def Children_count_def Children_forEach_def own_property_def
      createFill_def has_property_def object_prototype_keys_def)

text \<open>
  C3.  For a slot name \<open>S\<close> other than \<open>rest\<close> and other than the names every
  object inherits: when the element of type \<open>f\<close>, with marker \<open>S\<close> and nested
  content \<open>C\<close>, is the first fill for \<open>S\<close> in the sequence, the entry for \<open>S\<close>
  is \<open>C\<close>, whatever \<open>C\<close> is (one node, an array of nodes, \<open>undefined\<close>).
\<close>

theorem useSlots_tagged_entry:
  assumes "S \<noteq> ''rest''" and "S \<notin> set object_prototype_keys"
    and "\<forall>c\<in>set pre. SLOT_FILL_of c \<noteq> Some S"
    and "SLOT_FILL f = Some S"
  shows "own_property (useSlots (pre @ Element (FunctionType f) C # post)) S = Some C"
proof -
  have "SLOT_FILL_of (Element (FunctionType f) C) = Some S"
    using assms(4) by simp
  from own_property_useSlots_first [OF assms(1-3) this, of post]
  show ?thesis by simp
qed

text \<open>
  At a concrete input: the first header fill carries two nodes and comes after a
  footer fill and a \<open>div\<close>; a second header fill follows.
\<close>

theorem useSlots_tagged_entry_witness:
  "own_property (useSlots [Fill ''footer'' 0 Undefined, Element (HostType ''div'') (Text ''d''),
       Fill ''header'' 1 (Array [Text ''a'', Element (HostType ''h1'') (Text ''b'')]),
       Fill ''header'' 2 (Text ''c'')]) ''header''
     = Some (Array [Text ''a'', Element (HostType ''h1'') (Text ''b'')])"
proof -
  have h1: "''header'' \<noteq> ''rest''" by simp
  have h2: "''header'' \<notin> set object_prototype_keys"
    by (simp add: object_prototype_keys_def)
  have h3: "\<forall>c\<in>set [Fill ''footer'' 0 Undefined, Element (HostType ''div'') (Text ''d'')].
              SLOT_FILL_of c \<noteq> Some ''header''"
    by (simp add: createFill_def)
  have h4: "SLOT_FILL (createFill ''header'' 1) = Some ''header''"
    by (simp add: createFill_def)
  show ?thesis
    using useSlots_tagged_entry [OF h1 h2 h3 h4,
        of "Array [Text ''a'', Element (HostType ''h1'') (Text ''b'')]"
           "[Fill ''header'' 2 (Text ''c'')]"]
    unfolding append.simps .
qed

text \<open>
  For a fill anywhere in the sequence the statement fails: the second header fill
  with content \<open>B\<close> is in the sequence, and the entry for \<open>header\<close> is \<open>A\<close>.
  It fails for a first fill too when the slot is named \<open>rest\<close> (the entry is the
  bucket of untagged units) or \<open>toString\<close> (no entry is stored).
\<close>

theorem useSlots_tagged_entry_counterexample:
  "SLOT_FILL_of (Fill ''header'' 1 (Text ''B'')) = Some ''header''
   \<and> own_property (useSlots [Fill ''header'' 0 (Text ''A''), Fill ''header'' 1 (Text ''B'')])
         ''header'' = Some (Text ''A'')
   \<and> Text ''A'' \<noteq> Text ''B''
   \<and> own_property (useSlots [Fill ''rest'' 0 (Text ''C''), Text ''x'']) ''rest''
       = Some (Array [Text ''x''])
   \<and> own_property (useSlots [Fill ''toString'' 0 (Text ''C'')]) ''toString'' = None"
  by (simp add: useSlots_def Children_count_def Children_forEach_def own_property_def
      createFill_def has_property_def object_prototype_keys_def)

text \<open>
  C4.  For every non-empty input sequence the entry \<open>rest\<close> is exactly the
  subsequence of the untagged units of the input, unchanged and in their order;
  in particular a non-empty sequence without fills gives the object whose only
  entry is \<open>rest\<close>, equal to the input element for element.
\<close>

theorem useSlots_rest_preserves_untagged:
  assumes "children \<noteq> []"
  shows "own_property (useSlots children) ''rest''
           = Some (Array (filter (\<lambda>c. SLOT_FILL_of c = None) children))
         \<and> ((\<forall>c\<in>set children. SLOT_FILL_of c = None) \<longrightarrow>
              useSlots children = [(''rest'', Array children)])"
  using assms by (simp add: own_property_useSlots_rest useSlots_untagged_only)

text \<open>
  At two concrete inputs: untagged nodes around a fill keep their order in
  \<open>rest\<close>, and an input without fills comes back whole under \<open>rest\<close>.
\<close>

theorem useSlots_rest_preserves_untagged_witness:
  "own_property (useSlots [Text ''x'', Fill ''header'' 0 (Text ''y''), Text ''z'']) ''rest''
     = Some (Array [Text ''x'', Text ''z''])
   \<and> map SLOT_FILL_of [Text ''x'', Element (HostType ''div'') (Text ''d''), Null]
     = [None, None, None]
   \<and> useSlots [Text ''x'', Element (HostType ''div'') (Text ''d''), Null]
     = [(''rest'', Array [Text ''x'', Element (HostType ''div'') (Text ''d''), Null])]"
proof -
  have h1: "[Text ''x'', Fill ''header'' 0 (Text ''y''), Text ''z''] \<noteq> []" by simp
  have h2: "[Text ''x'', Element (HostType ''div'') (Text ''d''), Null] \<noteq> []" by simp
  have h3: "\<forall>c\<in>set [Text ''x'', Element (HostType ''div'') (Text ''d''), Null].
              SLOT_FILL_of c = None"
    by simp
  have h4: "filter (\<lambda>c. SLOT_FILL_of c = None)
              [Text ''x'', Fill ''header'' 0 (Text ''y''), Text ''z'']
            = [Text ''x'', Text ''z'']"
    by (simp add: createFill_def)
  show ?thesis
    using useSlots_rest_preserves_untagged [OF h1] useSlots_rest_preserves_untagged [OF h2] h3 h4
    by simp
qed

text \<open>
  For every input, the empty one included, the statement fails: the empty
  sequence has no fills and its untagged subsequence is empty, but the result
  has no key \<open>rest\<close>.
\<close>

theorem useSlots_rest_of_empty_input:
  "filter (\<lambda>c. SLOT_FILL_of c = None) [] = []
   \<and> own_property (useSlots []) ''rest'' \<noteq> Some (Array [])
   \<and> ''rest'' \<notin> set (map fst (useSlots []))"
  by (simp add: useSlots_def Children_count_def own_property_def)
text \<open>
  C5.  \<open>SlotManager.useSlots\<close> returns what \<open>useSlots\<close> returns on every input; the
  set of the manager plays no part.  A manager for \<open>a\<close> and \<open>b\<close> keeps the entry
  of a fill for \<open>c\<close>.
\<close>

theorem SlotManager_useSlots_delegates:
  "SlotManager_useSlots this children = useSlots children
   \<and> ''c'' \<notin> slots (SlotManager_new [''a'', ''b''])
   \<and> own_property (SlotManager_useSlots (SlotManager_new [''a'', ''b'']) [Fill ''c'' 0 (Text ''X'')])
        ''c'' = Some (Text ''X'')"
  by (simp add: SlotManager_useSlots_def SlotManager_new_def useSlots_def Children_count_def
      Children_forEach_def own_property_def createFill_def has_property_def
      object_prototype_keys_def)

text \<open>
  C6.  \<open>SlotManager.createFill(slotName)\<close> throws exactly when \<open>slotName\<close> is not
  in the set of the manager; the message of the error is
  \<open>Slot "slotName" does not exist\<close>, which contains the name; otherwise the result
  is the one of \<open>createFill(slotName)\<close>.
\<close>

theorem SlotManager_createFill_validates:
  "(isl (SlotManager_createFill this slotName fid) \<longleftrightarrow> slotName \<notin> slots this)
   \<and> (slotName \<notin> slots this \<longrightarrow>
        SlotManager_createFill this slotName fid
          = Inl (Error (''Slot '' @ [CHR 0x22] @ slotName @ [CHR 0x22] @ '' does not exist''))
        \<and> (\<exists>pre post. SlotManager_createFill this slotName fid
              = Inl (Error (pre @ slotName @ post))))
   \<and> (slotName \<in> slots this \<longrightarrow>
        SlotManager_createFill this slotName fid = Inr (createFill slotName fid))"
proof -
  have "\<exists>pre post. ''Slot '' @ [CHR 0x22] @ slotName @ [CHR 0x22] @ '' does not exist''
          = pre @ slotName @ post"
    by (rule exI [of _ "''Slot '' @ [CHR 0x22]"], rule exI [of _ "[CHR 0x22] @ '' does not exist''"])
       simp
  then show ?thesis
    by (auto simp: SlotManager_createFill_def)
qed

text \<open>
  The manager of the test suite, for \<open>header\<close> and \<open>footer\<close>: \<open>body\<close> is
  rejected, \<open>header\<close> is accepted.
\<close>

theorem SlotManager_createFill_validates_witness:
  "''body'' \<notin> slots (SlotManager_new [''header'', ''footer''])
   \<and> SlotManager_createFill (SlotManager_new [''header'', ''footer'']) ''body'' 0
       = Inl (Error (''Slot '' @ [CHR 0x22] @ ''body'' @ [CHR 0x22] @ '' does not exist''))
   \<and> ''header'' \<in> slots (SlotManager_new [''header'', ''footer''])
   \<and> SlotManager_createFill (SlotManager_new [''header'', ''footer'']) ''header'' 0
       = Inr (createFill ''header'' 0)"
proof -
  have h1: "''body'' \<notin> slots (SlotManager_new [''header'', ''footer''])"
    by (simp add: SlotManager_new_def)
  have h2: "''header'' \<in> slots (SlotManager_new [''header'', ''footer''])"
    by (simp add: SlotManager_new_def)
  show ?thesis
    using h1 h2
      SlotManager_createFill_validates [of "SlotManager_new [''header'', ''footer'']" "''body''" 0]
      SlotManager_createFill_validates [of "SlotManager_new [''header'', ''footer'']" "''header''" 0]
    by blast
qed

text \<open>
  C7.  Two fills made by \<open>createFill\<close> for the same slot name are different
  function objects when their identities \<open>i\<close> and \<open>j\<close> differ, and still an
  element of the one can be replaced by an element of the other with the same
  content without changing the result: the callback reads the marker only.
\<close>

theorem useSlots_fill_interchangeable:
  "useSlots (pre @ Fill S i C # post) = useSlots (pre @ Fill S j C # post)"
proof -
  have "forEach_callback (Fill S i C) st = forEach_callback (Fill S j C) st" for st
    by (cases st) (simp add: createFill_def)
  then have "fold forEach_callback (pre @ Fill S i C # post) st
             = fold forEach_callback (pre @ Fill S j C # post) st" for st
    by simp
  then show ?thesis
    by (simp add: useSlots_nonempty)
qed

text \<open>
  C8.  \<open>createFill(s)\<close> always returns a component; its marker \<open>__SLOT_FILL__\<close>
  is \<open>s\<close>, and called with nested content it returns the fragment of exactly that
  content.
\<close>

theorem createFill_marker_and_render:
  "SLOT_FILL (createFill s fid) = Some s
   \<and> call_component (createFill s fid) children = Some (Element FragmentType children)"
  by (simp add: createFill_def)

text \<open>
  C9.  For a non-empty input the final entry \<open>rest\<close> is the bucket of the
  untagged units, also when the input has a fill for the slot named \<open>rest\<close>.
  The content of the first such fill is under the key \<open>rest\<close> when the loop
  ends, and the assignment after the loop replaces it by the bucket.
\<close>

theorem useSlots_rest_is_untagged_bucket:
  assumes "children \<noteq> []"
  shows "own_property (useSlots children) ''rest''
           = Some (Array (filter (\<lambda>c. SLOT_FILL_of c = None) children))
         \<and> (children = pre @ Element (FunctionType f) C # post
              \<and> (\<forall>c\<in>set pre. SLOT_FILL_of c \<noteq> Some ''rest'') \<and> SLOT_FILL f = Some ''rest''
            \<longrightarrow> own_property (snd (Children_forEach children ([], []))) ''rest'' = Some C)"
proof (intro conjI impI)
  show "own_property (useSlots children) ''rest''
           = Some (Array (filter (\<lambda>c. SLOT_FILL_of c = None) children))"
    using assms by (rule own_property_useSlots_rest)
next
  assume a: "children = pre @ Element (FunctionType f) C # post
      \<and> (\<forall>c\<in>set pre. SLOT_FILL_of c \<noteq> Some ''rest'') \<and> SLOT_FILL f = Some ''rest''"
  then have pre: "\<forall>c\<in>set pre. SLOT_FILL_of c \<noteq> Some ''rest''"
    and ch: "children = pre @ Element (FunctionType f) C # post"
    by simp_all
  have x: "SLOT_FILL_of (Element (FunctionType f) C) = Some ''rest''"
    using a by simp
  have "\<not> has_property ''rest'' []"
    using rest_not_inherited by (simp add: has_property_def)
  from fold_callback_first [OF pre x this, of post "[]"]
  show "own_property (snd (Children_forEach children ([], []))) ''rest'' = Some C"
    by (simp add: ch own_property_def Children_forEach_def)
qed

text \<open>
  At a concrete input with a fill for \<open>rest\<close>: after the loop \<open>rest\<close> holds its
  content \<open>A\<close>, in the result it holds the two untagged nodes.
\<close>

theorem useSlots_rest_is_untagged_bucket_witness:
  "own_property (useSlots [Text ''x'', Fill ''rest'' 0 (Text ''A''), Fill ''header'' 1 (Text ''H''),
       Element (HostType ''div'') Undefined]) ''rest''
     = Some (Array [Text ''x'', Element (HostType ''div'') Undefined])
   \<and> own_property (snd (Children_forEach [Text ''x'', Fill ''rest'' 0 (Text ''A''),
       Fill ''header'' 1 (Text ''H''), Element (HostType ''div'') Undefined] ([], []))) ''rest''
     = Some (Text ''A'')"
proof -
  let ?children = "[Text ''x'', Fill ''rest'' 0 (Text ''A''), Fill ''header'' 1 (Text ''H''),
       Element (HostType ''div'') Undefined]"
  have h1: "?children \<noteq> []" by simp
  have h2: "?children = [Text ''x''] @ Element (FunctionType (createFill ''rest'' 0)) (Text ''A'')
              # [Fill ''header'' 1 (Text ''H''), Element (HostType ''div'') Undefined]
            \<and> (\<forall>c\<in>set [Text ''x'']. SLOT_FILL_of c \<noteq> Some ''rest'')
            \<and> SLOT_FILL (createFill ''rest'' 0) = Some ''rest''"
    by (simp add: createFill_def)
  have h3: "filter (\<lambda>c. SLOT_FILL_of c = None) ?children
            = [Text ''x'', Element (HostType ''div'') Undefined]"
    by (simp add: createFill_def)
  show ?thesis
    using useSlots_rest_is_untagged_bucket [OF h1, of "[Text ''x'']" "createFill ''rest'' 0"
        "Text ''A''" "[Fill ''header'' 1 (Text ''H''), Element (HostType ''div'') Undefined]"]
      h2 h3
    by simp
qed

text \<open>
  C10.  Presence of the key decides, not the value.  For a slot name \<open>S\<close> other
  than \<open>rest\<close> and other than the names every object inherits: when the first
  fill for \<open>S\<close> has empty content \<open>E\<close> (\<open>undefined\<close>, \<open>null\<close> or the empty
  array), the entry for \<open>S\<close> is \<open>E\<close>, and a later fill for \<open>S\<close> with any
  content \<open>C\<close> is ignored.
\<close>

theorem useSlots_empty_first_still_wins:
  assumes "S \<noteq> ''rest''" and "S \<notin> set object_prototype_keys"
    and "\<forall>c\<in>set pre. SLOT_FILL_of c \<noteq> Some S"
    and "SLOT_FILL f = Some S" and "SLOT_FILL g = Some S"
    and "E \<in> {Undefined, Null, Array []}"
  shows "own_property
           (useSlots (pre @ Element (FunctionType f) E # mid @ Element (FunctionType g) C # post)) S
           = Some E
         \<and> useSlots (pre @ Element (FunctionType f) E # mid @ Element (FunctionType g) C # post)
           = useSlots (pre @ Element (FunctionType f) E # mid @ post)"
proof -
  have f: "SLOT_FILL_of (Element (FunctionType f) E) = Some S"
    using assms(4) by simp
  have g: "SLOT_FILL_of (Element (FunctionType g) C) = Some S"
    using assms(5) by simp
  have "own_property
          (useSlots (pre @ Element (FunctionType f) E # mid @ Element (FunctionType g) C # post)) S
        = Some E"
    using own_property_useSlots_first [OF assms(1-3) f, of "mid @ Element (FunctionType g) C # post"]
    by simp
  moreover have "useSlots (pre @ Element (FunctionType f) E # mid @ Element (FunctionType g) C # post)
        = useSlots (pre @ Element (FunctionType f) E # mid @ post)"
    by (rule useSlots_later_discarded [OF f g])
  ultimately show ?thesis by simp
qed

text \<open>
  At a concrete input: a header fill without children, text, a header fill with
  content.
\<close>

theorem useSlots_empty_first_still_wins_witness:
  "own_property (useSlots [Fill ''header'' 0 Undefined, Text ''x'', Fill ''header'' 1 (Text ''B'')])
       ''header'' = Some Undefined
   \<and> useSlots [Fill ''header'' 0 Undefined, Text ''x'', Fill ''header'' 1 (Text ''B'')]
     = useSlots [Fill ''header'' 0 Undefined, Text ''x'']"
proof -
  have h1: "''header'' \<noteq> ''rest''" by simp
  have h2: "''header'' \<notin> set object_prototype_keys"
    by (simp add: object_prototype_keys_def)
  have h3: "\<forall>c\<in>set []. SLOT_FILL_of c \<noteq> Some ''header''" by simp
  have h4: "SLOT_FILL (createFill ''header'' 0) = Some ''header''"
    by (simp add: createFill_def)
  have h5: "SLOT_FILL (createFill ''header'' 1) = Some ''header''"
    by (simp add: createFill_def)
  have h6: "Undefined \<in> {Undefined, Null, Array []}" by simp
  show ?thesis
    using useSlots_empty_first_still_wins [OF h1 h2 h3 h4 h5 h6, of "[Text ''x'']" "Text ''B''" "[]"]
    unfolding append.simps .
qed

text \<open>
  For the slot named \<open>rest\<close> the entry is not the empty content of the first
  fill but the bucket holding \<open>x\<close>; for the slot named \<open>valueOf\<close> there is no
  entry.
\<close>

theorem useSlots_empty_first_counterexample:
  "SLOT_FILL_of (Fill ''rest'' 0 Undefined) = Some ''rest''
   \<and> own_property (useSlots [Fill ''rest'' 0 Undefined, Text ''x'', Fill ''rest'' 1 (Text ''B'')])
         ''rest'' = Some (Array [Text ''x''])
   \<and> Array [Text ''x''] \<noteq> Undefined
   \<and> own_property (useSlots [Fill ''valueOf'' 0 Undefined, Fill ''valueOf'' 1 (Text ''B'')])
         ''valueOf'' = None"
  by (simp add: useSlots_def Children_count_def Children_forEach_def own_property_def
      createFill_def has_property_def object_prototype_keys_def)

end
